theory Spec2Isabelle
  imports Main "HOL-Library.Word"
begin

unbundle bit_operations_syntax

section \<open>JavaScript values, errors and the outside world\<close>

text \<open>
  Strings are byte strings: for the digest they are the UTF-8 bytes that Node's
  \<^verbatim>\<open>hmac.update\<close> hashes, for the substring tests they are ASCII text.
  A JSON value is what a body parser hands to the handler; \<^verbatim>\<open>undefined\<close> is
  \<open>None\<close> of an option type.  A number is carried as the text that
  \<^verbatim>\<open>String(n)\<close> prints; this code never computes with one.
\<close>

datatype json =
    JNull
  | JBool bool
  | JNum string
  | JStr string
  | JArr "json list"
  | JObj "(string \<times> json) list"

datatype js_error = Error string | TypeError string | FetchError string

text \<open>
  The property read \<^verbatim>\<open>v.k\<close> for the keys this program reads (\<^verbatim>\<open>event_type\<close>,
  \<^verbatim>\<open>file_name\<close>, \<^verbatim>\<open>file_key\<close>, \<^verbatim>\<open>triggered_by\<close>): it throws on
  \<^verbatim>\<open>undefined\<close> and \<^verbatim>\<open>null\<close>, looks the key up in an object and is
  \<^verbatim>\<open>undefined\<close> on every other value.
\<close>

definition get_prop :: "json option \<Rightarrow> string \<Rightarrow> js_error + json option" where
  "get_prop v k =
     (case v of
        None \<Rightarrow> Inl (TypeError ''Cannot read properties of undefined'')
      | Some JNull \<Rightarrow> Inl (TypeError ''Cannot read properties of null'')
      | Some (JObj kvs) \<Rightarrow> Inr (map_of kvs k)
      | Some _ \<Rightarrow> Inr None)"

text \<open>An environment variable is a string or absent; the empty string is falsy.\<close>

definition truthy :: "string option \<Rightarrow> bool" where
  "truthy v = (case v of None \<Rightarrow> False | Some s \<Rightarrow> s \<noteq> [])"

text \<open>A string or \<^verbatim>\<open>undefined\<close> where a string is used: spliced into a
  template literal, \<^verbatim>\<open>undefined\<close> prints as itself.\<close>

definition str_of :: "string option \<Rightarrow> string" where
  "str_of v = (case v of None \<Rightarrow> ''undefined'' | Some s \<Rightarrow> s)"

definition dec_digit :: "nat \<Rightarrow> char" where
  "dec_digit n = ''0123456789'' ! (n mod 10)"

fun string_of_nat :: "nat \<Rightarrow> string" where
  "string_of_nat n =
     (if n < 10 then [dec_digit n] else string_of_nat (n div 10) @ [dec_digit (n mod 10)])"

declare string_of_nat.simps [simp del]

text \<open>\<^verbatim>\<open>s.split(c)\<close> for a one-character separator.\<close>

fun split_on :: "char \<Rightarrow> string \<Rightarrow> string list" where
  "split_on c [] = [[]]"
| "split_on c (x # xs) =
     (if x = c then [] # split_on c xs
      else (case split_on c xs of [] \<Rightarrow> [[x]] | p # ps \<Rightarrow> (x # p) # ps))"

text \<open>An array element spliced into a template literal; a missing one prints as \<^verbatim>\<open>undefined\<close>.\<close>

definition elem_str :: "string list \<Rightarrow> nat \<Rightarrow> string" where
  "elem_str xs i = (if i < length xs then xs ! i else ''undefined'')"

record http_request =
  rq_url :: string
  rq_method :: string
  rq_headers :: "(string \<times> string) list"
  rq_body :: string

text \<open>
  What \<^verbatim>\<open>await fetch(...)\<close> gives: the promise rejects (no response at all), or
  it resolves to a response with a status and a body text.
\<close>

datatype fetch_outcome = Rejected string | Response nat string

definition response_ok :: "nat \<Rightarrow> bool" where
  "response_ok st = (200 \<le> st \<and> st \<le> 299)"

section \<open>HMAC-SHA256 (Node's \<^verbatim>\<open>createHmac('sha256', secret)\<close>)\<close>

type_synonym byte = "8 word"
type_synonym sha_state =
  "32 word \<times> 32 word \<times> 32 word \<times> 32 word \<times> 32 word \<times> 32 word \<times> 32 word \<times> 32 word"

text \<open>The round constants and the initial hash value of FIPS 180-4, in decimal.\<close>

definition K256 :: "32 word list" where
  "K256 =
    [1116352408, 1899447441, 3049323471, 3921009573, 961987163, 1508970993, 2453635748, 2870763221,
     3624381080, 310598401, 607225278, 1426881987, 1925078388, 2162078206, 2614888103, 3248222580,
     3835390401, 4022224774, 264347078, 604807628, 770255983, 1249150122, 1555081692, 1996064986,
     2554220882, 2821834349, 2952996808, 3210313671, 3336571891, 3584528711, 113926993, 338241895,
     666307205, 773529912, 1294757372, 1396182291, 1695183700, 1986661051, 2177026350, 2456956037,
     2730485921, 2820302411, 3259730800, 3345764771, 3516065817, 3600352804, 4094571909, 275423344,
     430227734, 506948616, 659060556, 883997877, 958139571, 1322822218, 1537002063, 1747873779,
     1955562222, 2024104815, 2227730452, 2361852424, 2428436474, 2756734187, 3204031479, 3329325298]"

definition H256 :: sha_state where
  "H256 = (1779033703, 3144134277, 1013904242, 2773480762,
           1359893119, 2600822924, 528734635, 1541459225)"

definition Ch :: "32 word \<Rightarrow> 32 word \<Rightarrow> 32 word \<Rightarrow> 32 word" where
  "Ch x y z = (x AND y) XOR (NOT x AND z)"

definition Maj :: "32 word \<Rightarrow> 32 word \<Rightarrow> 32 word \<Rightarrow> 32 word" where
  "Maj x y z = (x AND y) XOR (x AND z) XOR (y AND z)"

definition bsig0 :: "32 word \<Rightarrow> 32 word" where
  "bsig0 x = word_rotr 2 x XOR word_rotr 13 x XOR word_rotr 22 x"

definition bsig1 :: "32 word \<Rightarrow> 32 word" where
  "bsig1 x = word_rotr 6 x XOR word_rotr 11 x XOR word_rotr 25 x"

definition ssig0 :: "32 word \<Rightarrow> 32 word" where
  "ssig0 x = word_rotr 7 x XOR word_rotr 18 x XOR drop_bit 3 x"

definition ssig1 :: "32 word \<Rightarrow> 32 word" where
  "ssig1 x = word_rotr 17 x XOR word_rotr 19 x XOR drop_bit 10 x"

definition be64 :: "64 word \<Rightarrow> byte list" where
  "be64 n = map (\<lambda>i. ucast (drop_bit (8 * (7 - i)) n)) [0..<8]"

text \<open>Padding: the bit 1, zeros up to 56 modulo 64 bytes, the bit length on 64 bits.\<close>

definition sha_pad :: "byte list \<Rightarrow> byte list" where
  "sha_pad m =
     m @ [0x80] @ replicate ((119 - length m mod 64) mod 64) 0 @ be64 (of_nat (8 * length m))"

definition be32 :: "byte list \<Rightarrow> 32 word" where
  "be32 bs = foldl (\<lambda>acc b. push_bit 8 acc OR ucast b) 0 bs"

definition block_words :: "byte list \<Rightarrow> 32 word list" where
  "block_words blk = map (\<lambda>i. be32 (take 4 (drop (4 * i) blk))) [0..<16]"

fun extend_schedule :: "nat \<Rightarrow> 32 word list \<Rightarrow> 32 word list" where
  "extend_schedule 0 w = w"
| "extend_schedule (Suc n) w =
     extend_schedule n
       (w @ [ssig1 (w ! (length w - 2)) + w ! (length w - 7)
             + ssig0 (w ! (length w - 15)) + w ! (length w - 16)])"

definition sha_round :: "sha_state \<Rightarrow> 32 word \<times> 32 word \<Rightarrow> sha_state" where
  "sha_round st kw =
     (case st of (a, b, c, d, e, f, g, h) \<Rightarrow>
        (let t1 = h + bsig1 e + Ch e f g + fst kw + snd kw;
             t2 = bsig0 a + Maj a b c
         in (t1 + t2, a, b, c, d + t1, e, f, g)))"

definition add_state :: "sha_state \<Rightarrow> sha_state \<Rightarrow> sha_state" where
  "add_state s t =
     (case s of (a, b, c, d, e, f, g, h) \<Rightarrow>
        (case t of (a', b', c', d', e', f', g', h') \<Rightarrow>
           (a + a', b + b', c + c', d + d', e + e', f + f', g + g', h + h')))"

definition compress :: "sha_state \<Rightarrow> byte list \<Rightarrow> sha_state" where
  "compress st blk =
     add_state st (foldl sha_round st (zip K256 (extend_schedule 48 (block_words blk))))"

definition blocks :: "byte list \<Rightarrow> byte list list" where
  "blocks bs = map (\<lambda>i. take 64 (drop (64 * i) bs)) [0..<length bs div 64]"

definition sha256_state :: "byte list \<Rightarrow> sha_state" where
  "sha256_state m = foldl compress H256 (blocks (sha_pad m))"

definition word_bytes :: "32 word \<Rightarrow> byte list" where
  "word_bytes w = [ucast (drop_bit 24 w), ucast (drop_bit 16 w), ucast (drop_bit 8 w), ucast w]"

definition state_bytes :: "sha_state \<Rightarrow> byte list" where
  "state_bytes st =
     (case st of (a, b, c, d, e, f, g, h) \<Rightarrow>
        concat (map word_bytes [a, b, c, d, e, f, g, h]))"

definition sha256 :: "byte list \<Rightarrow> byte list" where
  "sha256 m = state_bytes (sha256_state m)"

definition hmac_key_block :: "byte list \<Rightarrow> byte list" where
  "hmac_key_block key =
     (let k0 = (if length key > 64 then sha256 key else key)
      in k0 @ replicate (64 - length k0) 0)"

definition hmac_sha256_state :: "byte list \<Rightarrow> byte list \<Rightarrow> sha_state" where
  "hmac_sha256_state key msg =
     (let k = hmac_key_block key
      in sha256_state (map (\<lambda>b. b XOR 0x5c) k @ sha256 (map (\<lambda>b. b XOR 0x36) k @ msg)))"

definition hex_digit :: "nat \<Rightarrow> char" where
  "hex_digit n = ''0123456789abcdef'' ! (n mod 16)"

definition hex_byte :: "byte \<Rightarrow> string" where
  "hex_byte b = [hex_digit (unat b div 16), hex_digit (unat b mod 16)]"

definition hex :: "byte list \<Rightarrow> string" where
  "hex bs = concat (map hex_byte bs)"

definition bytes_of :: "string \<Rightarrow> byte list" where
  "bytes_of s = map of_char s"

text \<open>
  \<^verbatim>\<open>createHmac('sha256', secret).update(payload).digest('hex')\<close>: the payload first,
  the secret second, as in the arguments of \<^verbatim>\<open>verifyFigmaWebhook\<close>.
\<close>

definition hmac_sha256_hex :: "string \<Rightarrow> string \<Rightarrow> string" where
  "hmac_sha256_hex payload secret =
     hex (state_bytes (hmac_sha256_state (bytes_of secret) (bytes_of payload)))"

section \<open>The webhook receiver\<close>

text \<open>
  \<^verbatim>\<open>verifyFigmaWebhook(payload, signature, secret)\<close>.  The signature is the header's
  value and may be \<^verbatim>\<open>undefined\<close>; \<^verbatim>\<open>===\<close> is then false.
\<close>

definition verifyFigmaWebhook :: "string \<Rightarrow> string option \<Rightarrow> string \<Rightarrow> bool" where
  "verifyFigmaWebhook payload signature secret =
     (let expectedSignature = hmac_sha256_hex payload secret
      in signature = Some expectedSignature)"

text \<open>\<^verbatim>\<open>process.env\<close>: the variables the two programs read.\<close>

record process_env =
  FIGMA_WEBHOOK_SECRET :: "string option"
  GITHUB_TOKEN :: "string option"
  GITHUB_REPOSITORY :: "string option"
  FIGMA_TOKEN :: "string option"
  FIGMA_FILE_KEY :: "string option"
  FIGMA_NODE_IDS :: "string option"

record request =
  req_method :: string
  req_body :: "json option"
  req_signature :: "string option"

record response =
  res_status :: nat
  res_json :: "(string \<times> json) list"

text \<open>An object literal as \<^verbatim>\<open>JSON.stringify\<close> and \<^verbatim>\<open>res.json\<close> see it: a property
  whose value is \<^verbatim>\<open>undefined\<close> is left out.\<close>

definition defined_fields :: "(string \<times> json option) list \<Rightarrow> (string \<times> json) list" where
  "defined_fields kvs = concat (map (\<lambda>(k, v). case v of None \<Rightarrow> [] | Some x \<Rightarrow> [(k, x)]) kvs)"

text \<open>The dispatch payload of \<^verbatim>\<open>triggerGitHubAction\<close>; \<open>now\<close> is
  \<^verbatim>\<open>new Date().toISOString()\<close>.\<close>

definition dispatchPayload :: "string \<Rightarrow> json option \<Rightarrow> js_error + json" where
  "dispatchPayload now figmaEvent =
     (case get_prop figmaEvent ''event_type'' of
        Inl e \<Rightarrow> Inl e
      | Inr event_type \<Rightarrow>
     (case get_prop figmaEvent ''file_name'' of
        Inl e \<Rightarrow> Inl e
      | Inr file_name \<Rightarrow>
     (case get_prop figmaEvent ''file_key'' of
        Inl e \<Rightarrow> Inl e
      | Inr file_key \<Rightarrow>
     (case get_prop figmaEvent ''triggered_by'' of
        Inl e \<Rightarrow> Inl e
      | Inr triggered_by \<Rightarrow>
          Inr (JObj
            [(''event_type'', JStr ''figma-update''),
             (''client_payload'', JObj (defined_fields
                [(''event_type'', event_type),
                 (''file_name'', file_name),
                 (''file_key'', file_key),
                 (''timestamp'', Some (JStr now)),
                 (''triggered_by'', triggered_by)]))])))))"

definition dispatch_request :: "(json \<Rightarrow> string) \<Rightarrow> process_env \<Rightarrow> json \<Rightarrow> http_request" where
  "dispatch_request stringify env payload =
     (let parts = split_on CHR ''/'' (str_of (GITHUB_REPOSITORY env));
          owner = elem_str parts 0;
          repo = elem_str parts 1
      in \<lparr>rq_url = ''https://api.github.com/repos/'' @ owner @ ''/'' @ repo @ ''/dispatches'',
          rq_method = ''POST'',
          rq_headers =
            [(''Authorization'', ''token '' @ str_of (GITHUB_TOKEN env)),
             (''Accept'', ''application/vnd.github.v3+json''),
             (''Content-Type'', ''application/json'')],
          rq_body = stringify payload\<rparr>)"

text \<open>
  \<^verbatim>\<open>triggerGitHubAction(figmaEvent)\<close>: the result (an error raised, or a normal
  return) and the requests sent, in order.  \<open>stringify\<close> is \<^verbatim>\<open>JSON.stringify\<close>,
  \<open>fetch\<close> the network.
\<close>

definition triggerGitHubAction ::
  "(json \<Rightarrow> string) \<Rightarrow> process_env \<Rightarrow> (http_request \<Rightarrow> fetch_outcome) \<Rightarrow> string
     \<Rightarrow> json option \<Rightarrow> (js_error + unit) \<times> http_request list" where
  "triggerGitHubAction stringify env fetch now figmaEvent =
     (if \<not> truthy (GITHUB_TOKEN env) \<or> \<not> truthy (GITHUB_REPOSITORY env)
      then (Inl (Error ''Missing GitHub configuration''), [])
      else
        (case dispatchPayload now figmaEvent of
           Inl e \<Rightarrow> (Inl e, [])
         | Inr payload \<Rightarrow>
             (let rq = dispatch_request stringify env payload
              in (case fetch rq of
                    Rejected m \<Rightarrow> (Inl (FetchError m), [rq])
                  | Response st reply \<Rightarrow>
                      if \<not> response_ok st
                      then (Inl (Error (''GitHub API error: '' @ string_of_nat st @ '' '' @ reply)),
                            [rq])
                      else (Inr (), [rq])))))"

text \<open>The part of the handler after the signature check (lines 33 to 48).\<close>

definition process_event ::
  "(json \<Rightarrow> string) \<Rightarrow> process_env \<Rightarrow> (http_request \<Rightarrow> fetch_outcome) \<Rightarrow> string
     \<Rightarrow> json option \<Rightarrow> (js_error + response) \<times> http_request list" where
  "process_event stringify env fetch now event =
     (case get_prop event ''event_type'' of
        Inl e \<Rightarrow> (Inl e, [])
      | Inr event_type \<Rightarrow>
          if event_type = Some (JStr ''FILE_UPDATE'')
          then (case triggerGitHubAction stringify env fetch now event of
                  (Inl e, sent) \<Rightarrow> (Inl e, sent)
                | (Inr u, sent) \<Rightarrow>
                    (Inr \<lparr>res_status = 200,
                          res_json = [(''message'', JStr ''Webhook processed successfully''),
                                      (''triggered'', JBool True)]\<rparr>, sent))
          else (Inr \<lparr>res_status = 200,
                     res_json = defined_fields
                       [(''message'', Some (JStr ''Event ignored'')),
                        (''event_type'', event_type)]\<rparr>, []))"

text \<open>
  The body of the handler's \<^verbatim>\<open>try\<close>.  \<^verbatim>\<open>JSON.stringify(undefined)\<close> is
  \<^verbatim>\<open>undefined\<close>, and \<^verbatim>\<open>hmac.update(undefined)\<close> throws a TypeError; the verifier
  runs only when the secret is truthy.
\<close>

definition handle_post ::
  "(json \<Rightarrow> string) \<Rightarrow> process_env \<Rightarrow> (http_request \<Rightarrow> fetch_outcome) \<Rightarrow> string
     \<Rightarrow> request \<Rightarrow> (js_error + response) \<times> http_request list" where
  "handle_post stringify env fetch now req =
     (let payload = map_option stringify (req_body req);
          signature = req_signature req;
          webhookSecret = FIGMA_WEBHOOK_SECRET env
      in if truthy webhookSecret
         then (case payload of
                 None \<Rightarrow> (Inl (TypeError ''The data argument must be of type string''), [])
               | Some p \<Rightarrow>
                   if \<not> verifyFigmaWebhook p signature (str_of webhookSecret)
                   then (Inr \<lparr>res_status = 401,
                              res_json = [(''error'', JStr ''Invalid signature'')]\<rparr>, [])
                   else process_event stringify env fetch now (req_body req))
         else process_event stringify env fetch now (req_body req))"

definition handler ::
  "(json \<Rightarrow> string) \<Rightarrow> process_env \<Rightarrow> (http_request \<Rightarrow> fetch_outcome) \<Rightarrow> string
     \<Rightarrow> request \<Rightarrow> response \<times> http_request list" where
  "handler stringify env fetch now req =
     (if req_method req = ''OPTIONS''
      then (\<lparr>res_status = 200, res_json = [(''message'', JStr ''OK'')]\<rparr>, [])
      else if req_method req \<noteq> ''POST''
      then (\<lparr>res_status = 405, res_json = [(''error'', JStr ''Method not allowed'')]\<rparr>, [])
      else (case handle_post stringify env fetch now req of
              (Inl e, sent) \<Rightarrow>
                (\<lparr>res_status = 500,
                  res_json = [(''error'', JStr ''Internal server error'')]\<rparr>, sent)
            | (Inr r, sent) \<Rightarrow> (r, sent)))"

section \<open>Strings of the sync script\<close>

definition nl :: string where
  "nl = [CHR 0x0A]"

definition dq :: string where
  "dq = [CHR 0x22]"

definition bt :: string where
  "bt = [CHR 0x60]"

text \<open>\<^verbatim>\<open>toLowerCase\<close> on ASCII text.\<close>

definition lower_char :: "char \<Rightarrow> char" where
  "lower_char c =
     (case map_of (zip ''ABCDEFGHIJKLMNOPQRSTUVWXYZ'' ''abcdefghijklmnopqrstuvwxyz'') c of
        None \<Rightarrow> c
      | Some d \<Rightarrow> d)"

definition toLowerCase :: "string \<Rightarrow> string" where
  "toLowerCase s = map lower_char s"

fun starts_with :: "string \<Rightarrow> string \<Rightarrow> bool" where
  "starts_with s [] = True"
| "starts_with [] (y # ys) = False"
| "starts_with (x # xs) (y # ys) = (x = y \<and> starts_with xs ys)"

text \<open>\<^verbatim>\<open>s.includes(t)\<close>.\<close>

fun str_includes :: "string \<Rightarrow> string \<Rightarrow> bool" where
  "str_includes [] t = (t = [])"
| "str_includes (x # xs) t = (starts_with (x # xs) t \<or> str_includes xs t)"

text \<open>\<^verbatim>\<open>nodeId.replace(/:/g, '-')\<close>.\<close>

definition replace_colons :: "string \<Rightarrow> string" where
  "replace_colons s = map (\<lambda>c. if c = CHR '':'' then CHR ''-'' else c) s"

text \<open>\<^verbatim>\<open>xs.join(sep)\<close> on an array of strings.\<close>

fun join :: "string \<Rightarrow> string list \<Rightarrow> string" where
  "join sep [] = []"
| "join sep [x] = x"
| "join sep (x # y # ys) = x @ sep @ join sep (y # ys)"

text \<open>A JSON value spliced into a template literal (\<^verbatim>\<open>String(v)\<close>).\<close>

fun js_string :: "json \<Rightarrow> string" where
  "js_string JNull = ''null''"
| "js_string (JBool b) = (if b then ''true'' else ''false'')"
| "js_string (JNum s) = s"
| "js_string (JStr s) = s"
| "js_string (JArr xs) = join '','' (map (\<lambda>x. if x = JNull then [] else js_string x) xs)"
| "js_string (JObj kvs) = ''[object Object]''"

definition template_str :: "json option \<Rightarrow> string" where
  "template_str v = (case v of None \<Rightarrow> ''undefined'' | Some x \<Rightarrow> js_string x)"

text \<open>
  The replacement string of \<^verbatim>\<open>String.prototype.replace\<close> for a pattern without
  capture groups: \<^verbatim>\<open>$$\<close> is a dollar, \<^verbatim>\<open>$&\<close> the match, \<^verbatim>\<open>$`\<close> the text
  before it, \<^verbatim>\<open>$'\<close> the text after it; every other character stands for itself.
\<close>

fun expand_replacement :: "string \<Rightarrow> string \<Rightarrow> string \<Rightarrow> string \<Rightarrow> string" where
  "expand_replacement [] matched pre post = []"
| "expand_replacement [c] matched pre post = [c]"
| "expand_replacement (c # d # r) matched pre post =
     (if c = CHR ''$'' \<and> d = CHR ''$'' then CHR ''$'' # expand_replacement r matched pre post
      else if c = CHR ''$'' \<and> d = CHR ''&'' then matched @ expand_replacement r matched pre post
      else if c = CHR ''$'' \<and> d = CHR 0x60 then pre @ expand_replacement r matched pre post
      else if c = CHR ''$'' \<and> d = CHR 0x27 then post @ expand_replacement r matched pre post
      else c # expand_replacement (d # r) matched pre post)"

text \<open>
  \<^verbatim>\<open>s.replace(/pat/g, repl)\<close> for a pattern that is a non-empty literal: the
  occurrences are replaced from left to right, without overlap.  The first argument counts
  the characters of the current match still to skip, the third is the text already read.
\<close>

fun replace_literal_from ::
  "nat \<Rightarrow> string \<Rightarrow> string \<Rightarrow> string \<Rightarrow> string \<Rightarrow> string" where
  "replace_literal_from k pat repl pre [] = []"
| "replace_literal_from (Suc k) pat repl pre (c # cs) =
     replace_literal_from k pat repl (pre @ [c]) cs"
| "replace_literal_from 0 pat repl pre (c # cs) =
     (if starts_with (c # cs) pat
      then expand_replacement repl pat pre (drop (length pat) (c # cs))
           @ replace_literal_from (length pat - 1) pat repl (pre @ [c]) cs
      else c # replace_literal_from 0 pat repl (pre @ [c]) cs)"

definition replace_all_literal :: "string \<Rightarrow> string \<Rightarrow> string \<Rightarrow> string" where
  "replace_all_literal pat repl s = replace_literal_from 0 pat repl [] s"

text \<open>The index of the first occurrence of a literal.\<close>

fun find_sub :: "string \<Rightarrow> string \<Rightarrow> nat option" where
  "find_sub pat [] = (if pat = [] then Some 0 else None)"
| "find_sub pat (c # cs) =
     (if starts_with (c # cs) pat then Some 0 else map_option Suc (find_sub pat cs))"

text \<open>The lazy \<^verbatim>\<open>[\s\S]*?(?=##|$)\<close>: the characters up to the next \<^verbatim>\<open>##\<close>, or to
  the end of the text.\<close>

fun until_heading :: "string \<Rightarrow> nat" where
  "until_heading [] = 0"
| "until_heading (c # cs) = (if starts_with (c # cs) ''##'' then 0 else Suc (until_heading cs))"

text \<open>
  \<^verbatim>\<open>content.replace(/## Component Screenshots[\s\S]*?(?=##|$)/, repl)\<close>: the first
  match only; a text without the heading is returned as it is.
\<close>

definition replace_screenshots_section :: "string \<Rightarrow> string \<Rightarrow> string" where
  "replace_screenshots_section repl content =
     (case find_sub ''## Component Screenshots'' content of
        None \<Rightarrow> content
      | Some i \<Rightarrow>
          (let pre = take i content;
               rest = drop (i + length ''## Component Screenshots'') content;
               k = until_heading rest;
               matched = ''## Component Screenshots'' @ take k rest;
               post = drop k rest
           in pre @ expand_replacement repl matched pre post @ post))"

text \<open>The ASCII characters of \<^verbatim>\<open>\s\<close>.\<close>

definition is_space :: "char \<Rightarrow> bool" where
  "is_space c = (c \<in> set [CHR 0x09, CHR 0x0A, CHR 0x0B, CHR 0x0C, CHR 0x0D, CHR 0x20])"

text \<open>
  \<^verbatim>\<open>content.replace(/<Warning>[\s\S]*?<\/Warning>\s*/g, '')\<close>.  An opening tag with
  no closing tag after it ends the search: no later position can match either.
\<close>

function remove_warnings :: "string \<Rightarrow> string" where
  "remove_warnings [] = []"
| "remove_warnings (c # cs) =
     (if starts_with (c # cs) ''<Warning>''
      then (case find_sub ''</Warning>'' (drop (length ''<Warning>'') (c # cs)) of
              None \<Rightarrow> c # cs
            | Some j \<Rightarrow>
                remove_warnings
                  (dropWhile is_space
                     (drop (length ''<Warning>'' + j + length ''</Warning>'') (c # cs))))
      else c # remove_warnings cs)"
  by pat_completeness auto
termination
proof (relation "measure length")
  show "wf (measure length)" by simp
next
  fix c :: char and cs :: string and j :: nat
  have "length (dropWhile is_space (drop (length ''<Warning>'' + j + length ''</Warning>'') (c # cs)))
          \<le> length (drop (length ''<Warning>'' + j + length ''</Warning>'') (c # cs))"
    by (rule length_dropWhile_le)
  also have "\<dots> < length (c # cs)"
    by simp
  finally show "(dropWhile is_space
                   (drop (length ''<Warning>'' + j + length ''</Warning>'') (c # cs)), c # cs)
                 \<in> measure length"
    by simp
next
  fix c :: char and cs :: string
  show "(cs, c # cs) \<in> measure length" by simp
qed

section \<open>Objects with string keys\<close>

text \<open>\<^verbatim>\<open>obj[k] = v\<close>: a new key is added last, an old key keeps its place.\<close>

fun obj_set :: "(string \<times> 'a) list \<Rightarrow> string \<Rightarrow> 'a \<Rightarrow> (string \<times> 'a) list" where
  "obj_set [] k v = [(k, v)]"
| "obj_set ((k', v') # r) k v = (if k' = k then (k, v) # r else (k', v') # obj_set r k v)"

definition is_digit :: "char \<Rightarrow> bool" where
  "is_digit c = (c \<in> set ''0123456789'')"

definition nat_of_digits :: "string \<Rightarrow> nat" where
  "nat_of_digits s = foldl (\<lambda>n c. 10 * n + (of_char c - 48)) 0 s"

text \<open>A key that is an array index: a canonical decimal numeral below \<open>2\<^sup>3\<^sup>2 - 1\<close>.\<close>

definition is_array_index :: "string \<Rightarrow> bool" where
  "is_array_index s =
     (s \<noteq> [] \<and> list_all is_digit s \<and> (s = ''0'' \<or> hd s \<noteq> CHR ''0'')
      \<and> nat_of_digits s < 4294967295)"

text \<open>\<^verbatim>\<open>Object.entries(obj)\<close>: the array indices in ascending order, then the other
  keys in the order they were added.\<close>

definition object_entries :: "(string \<times> 'a) list \<Rightarrow> (string \<times> 'a) list" where
  "object_entries kvs =
     sort_key (\<lambda>kv. nat_of_digits (fst kv)) (filter (\<lambda>kv. is_array_index (fst kv)) kvs)
     @ filter (\<lambda>kv. \<not> is_array_index (fst kv)) kvs"

section \<open>The sync script: data\<close>

record variableCollection =
  vc_id :: string
  vc_name :: string
  vc_defaultModeId :: string

record variable =
  var_name :: string
  var_variableCollectionId :: string
  var_valuesByMode :: "(string \<times> json) list"

text \<open>\<^verbatim>\<open>figmaData.meta\<close>: the two tables as \<^verbatim>\<open>Object.values\<close> lists them; each
  may be missing.\<close>

record figma_meta =
  variableCollections :: "variableCollection list option"
  variables :: "variable list option"

record figma_data =
  meta :: "figma_meta option"

record token =
  tok_value :: "json option"
  tok_type :: string

record tokens =
  colors :: "(string \<times> token) list"
  typography :: "(string \<times> token) list"
  spacing :: "(string \<times> token) list"
  lastSync :: string

record screenshot =
  sc_nodeId :: string
  sc_safeNodeId :: string
  sc_filename :: string
  sc_path :: string

text \<open>
  The clock of one run: what \<^verbatim>\<open>new Date().toISOString()\<close> and
  \<^verbatim>\<open>new Date().toLocaleString()\<close> print.  It does not advance during the run.
\<close>

record clock =
  now_iso :: string
  now_locale :: string

text \<open>
  The files: reading a path that is not there throws; creating a directory and writing
  succeed.  \<open>writes\<close> lists the paths written, in order.
\<close>

record fsys =
  files :: "string \<Rightarrow> string option"
  writes :: "string list"

definition writeFile :: "string \<Rightarrow> string \<Rightarrow> fsys \<Rightarrow> fsys" where
  "writeFile p c s = s\<lparr>files := (files s)(p \<mapsto> c), writes := writes s @ [p]\<rparr>"

text \<open>
  A \<^verbatim>\<open>GET\<close> of the design API: the promise rejects, or a response arrives with its
  status, its status text and its parsed body (\<open>None\<close> when \<^verbatim>\<open>response.json()\<close>
  throws, or the body is \<^verbatim>\<open>null\<close>, or it lacks what the caller destructures: each
  throws inside the caller's \<^verbatim>\<open>try\<close>).
\<close>

datatype 'a http_result = NetFail string | Http nat string "'a option"

record figma_api =
  get_variables :: "string \<Rightarrow> figma_data http_result"
  get_images :: "string \<Rightarrow> (string \<times> string option) list http_result"
  get_file :: "string \<Rightarrow> string option"

definition FIGMA_API :: string where
  "FIGMA_API = ''https://api.figma.com/v1''"

section \<open>The sync script: tokens\<close>

text \<open>The body of the inner \<^verbatim>\<open>forEach\<close> of \<^verbatim>\<open>transformVariablesToTokens\<close>
  (lines 79 to 99), for one collection and one variable.\<close>

definition classify_variable :: "variableCollection \<Rightarrow> variable \<Rightarrow> tokens \<Rightarrow> tokens" where
  "classify_variable collection variable tokens =
     (if var_variableCollectionId variable = vc_id collection
      then
        (let tokenValue = map_of (var_valuesByMode variable) (vc_defaultModeId collection)
         in if str_includes (toLowerCase (var_name variable)) ''color''
               \<or> str_includes (toLowerCase (vc_name collection)) ''color''
            then tokens\<lparr>colors := obj_set (colors tokens) (var_name variable)
                          \<lparr>tok_value = tokenValue, tok_type = ''color''\<rparr>\<rparr>
            else if str_includes (toLowerCase (var_name variable)) ''spacing''
                    \<or> str_includes (toLowerCase (vc_name collection)) ''spacing''
            then tokens\<lparr>spacing := obj_set (spacing tokens) (var_name variable)
                          \<lparr>tok_value = Some (JStr (template_str tokenValue @ ''px'')),
                           tok_type = ''dimension''\<rparr>\<rparr>
            else if str_includes (toLowerCase (var_name variable)) ''font''
                    \<or> str_includes (toLowerCase (vc_name collection)) ''typography''
            then tokens\<lparr>typography := obj_set (typography tokens) (var_name variable)
                          \<lparr>tok_value = tokenValue, tok_type = ''fontFamily''\<rparr>\<rparr>
            else tokens)
      else tokens)"

definition transformVariablesToTokens :: "clock \<Rightarrow> figma_data \<Rightarrow> tokens" where
  "transformVariablesToTokens clk figmaData =
     (let tokens = \<lparr>colors = [], typography = [], spacing = [], lastSync = now_iso clk\<rparr>
      in case meta figmaData of
           None \<Rightarrow> tokens
         | Some m \<Rightarrow>
             (case variableCollections m of
                None \<Rightarrow> tokens
              | Some cs \<Rightarrow>
                  foldl (\<lambda>tokens collection.
                           case variables m of
                             None \<Rightarrow> tokens
                           | Some vs \<Rightarrow>
                               foldl (\<lambda>tokens variable.
                                        classify_variable collection variable tokens) tokens vs)
                    tokens cs))"

text \<open>
  \<^verbatim>\<open>fetchDesignTokens\<close>: the tokens or \<^verbatim>\<open>null\<close>, and the files after it.
  Every failure inside the \<^verbatim>\<open>try\<close> ends in the \<^verbatim>\<open>catch\<close>, which returns
  \<^verbatim>\<open>null\<close>.  \<open>stringify_tokens\<close> is \<^verbatim>\<open>JSON.stringify(tokens, null, 2)\<close>.
\<close>

definition fetchDesignTokens ::
  "(tokens \<Rightarrow> string) \<Rightarrow> process_env \<Rightarrow> figma_api \<Rightarrow> clock \<Rightarrow> fsys \<Rightarrow> tokens option \<times> fsys" where
  "fetchDesignTokens stringify_tokens env api clk s =
     (case get_variables api
             (FIGMA_API @ ''/files/'' @ str_of (FIGMA_FILE_KEY env) @ ''/variables/local'') of
        NetFail m \<Rightarrow> (None, s)
      | Http st stText body \<Rightarrow>
          if \<not> response_ok st then (None, s)
          else (case body of
                  None \<Rightarrow> (None, s)
                | Some data \<Rightarrow>
                    (let tokens = transformVariablesToTokens clk data
                     in (Some tokens,
                         writeFile ''tokens/_data/tokens.json'' (stringify_tokens tokens) s))))"

section \<open>The sync script: screenshots\<close>

text \<open>Lines 139 to 152: the record of one downloaded node.\<close>

definition screenshot_record :: "string \<Rightarrow> string \<Rightarrow> screenshot" where
  "screenshot_record repository nodeId =
     (let safeNodeId = replace_colons nodeId;
          filename = ''figma-'' @ safeNodeId @ ''.png'';
          githubRawUrl = ''https://raw.githubusercontent.com/'' @ repository
                         @ ''/main/public/images/'' @ filename
      in \<lparr>sc_nodeId = nodeId, sc_safeNodeId = safeNodeId, sc_filename = filename,
          sc_path = githubRawUrl\<rparr>)"

text \<open>\<^verbatim>\<open>if (imageUrl)\<close>: \<^verbatim>\<open>null\<close> and the empty string are falsy.\<close>

definition has_url :: "string \<times> string option \<Rightarrow> bool" where
  "has_url entry = truthy (snd entry)"

text \<open>
  The loop of lines 136 to 154 over \<^verbatim>\<open>Object.entries(images)\<close>.  A download that
  fails (\<open>get_file\<close> gives \<open>None\<close>) throws out of the loop; the files written so far
  stay.
\<close>

fun download_images ::
  "string \<Rightarrow> (string \<Rightarrow> string option) \<Rightarrow> (string \<times> string option) list \<Rightarrow> screenshot list
     \<Rightarrow> fsys \<Rightarrow> (js_error + screenshot list) \<times> fsys" where
  "download_images repository fetch_file [] downloadedImages s = (Inr downloadedImages, s)"
| "download_images repository fetch_file ((nodeId, imageUrl) # rest) downloadedImages s =
     (if truthy imageUrl
      then (case fetch_file (str_of imageUrl) of
              None \<Rightarrow> (Inl (FetchError (str_of imageUrl)), s)
            | Some buffer \<Rightarrow>
                download_images repository fetch_file rest
                  (downloadedImages @ [screenshot_record repository nodeId])
                  (writeFile (''public/images/'' @ sc_filename (screenshot_record repository nodeId))
                     buffer s))
      else download_images repository fetch_file rest downloadedImages s)"

text \<open>\<^verbatim>\<open>process.env.GITHUB_REPOSITORY || "hellojulian/mintlify"\<close>.\<close>

definition sync_repository :: "process_env \<Rightarrow> string" where
  "sync_repository env =
     (if truthy (GITHUB_REPOSITORY env) then str_of (GITHUB_REPOSITORY env)
      else ''hellojulian/mintlify'')"

text \<open>\<^verbatim>\<open>process.env.FIGMA_NODE_IDS?.split(',') || []\<close>.\<close>

definition configured_node_ids :: "process_env \<Rightarrow> string list" where
  "configured_node_ids env =
     (case FIGMA_NODE_IDS env of None \<Rightarrow> [] | Some ids \<Rightarrow> split_on CHR '','' ids)"

definition fetchScreenshots :: "process_env \<Rightarrow> figma_api \<Rightarrow> fsys \<Rightarrow> screenshot list \<times> fsys" where
  "fetchScreenshots env api s =
     (let nodeIds = configured_node_ids env
      in if length nodeIds = 0 then ([], s)
         else
           (case get_images api
                   (FIGMA_API @ ''/images/'' @ str_of (FIGMA_FILE_KEY env) @ ''?ids=''
                    @ join '','' nodeIds @ ''&format=png&scale=2'') of
              NetFail m \<Rightarrow> ([], s)
            | Http st stText body \<Rightarrow>
                if \<not> response_ok st then ([], s)
                else (case body of
                        None \<Rightarrow> ([], s)
                      | Some images \<Rightarrow>
                          (case download_images (sync_repository env) (get_file api) images [] s of
                             (Inl e, s') \<Rightarrow> ([], s')
                           | (Inr downloadedImages, s') \<Rightarrow> (downloadedImages, s')))))"

section \<open>The sync script: documentation updater\<close>

text \<open>The block that \<^verbatim>\<open>updateComponentPage\<close> renders for one screenshot (lines 226 to 234).\<close>

definition render_screenshot :: "screenshot \<Rightarrow> string" where
  "render_screenshot img =
     nl @ ''## '' @ replace_colons (sc_nodeId img) @ nl
     @ nl
     @ ''<img'' @ nl
     @ ''  src='' @ dq @ sc_path img @ dq @ nl
     @ ''  alt='' @ dq @ ''Component screenshot for '' @ sc_nodeId img @ dq @ nl
     @ ''  style='' @ dq @ ''border: 1px solid #e2e8f0; border-radius: 8px; margin: 16px 0;'' @ dq @ nl
     @ ''/>'' @ nl"

text \<open>The replacement text of lines 240 to 248.\<close>

definition screenshots_block :: "string \<Rightarrow> string \<Rightarrow> string" where
  "screenshots_block timestamp screenshotsSection =
     ''## Component Screenshots'' @ nl
     @ nl
     @ ''<Note>'' @ nl
     @ ''  Last updated: '' @ timestamp @ nl
     @ ''</Note>'' @ nl
     @ nl
     @ screenshotsSection @ nl
     @ nl"

text \<open>
  \<^verbatim>\<open>updateComponentPage(componentType, images)\<close>.  A page that cannot be read
  throws inside the \<^verbatim>\<open>try\<close>; the \<^verbatim>\<open>catch\<close> logs it and nothing is written.
\<close>

definition updateComponentPage :: "clock \<Rightarrow> string \<Rightarrow> screenshot list \<Rightarrow> fsys \<Rightarrow> fsys" where
  "updateComponentPage clk componentType images s =
     (let filePath = ''components/'' @ componentType @ ''.mdx''
      in case files s filePath of
           None \<Rightarrow> s
         | Some content \<Rightarrow>
             (let screenshotsSection = join nl (map render_screenshot images);
                  timestamp = now_locale clk;
                  content1 = replace_screenshots_section
                               (screenshots_block timestamp screenshotsSection) content;
                  content2 = remove_warnings content1
              in writeFile filePath content2 s))"

text \<open>The four filters of lines 185 to 206, in the order the object lists them.\<close>

definition componentGroups :: "screenshot list \<Rightarrow> (string \<times> screenshot list) list" where
  "componentGroups screenshots =
     [(''alerts'', filter (\<lambda>img.
         str_includes (toLowerCase (sc_nodeId img)) ''alert'' \<or>
         str_includes (sc_nodeId img) ''22123:476643'') screenshots),
      (''forms'', filter (\<lambda>img.
         str_includes (toLowerCase (sc_nodeId img)) ''form'' \<or>
         str_includes (toLowerCase (sc_nodeId img)) ''input'' \<or>
         str_includes (toLowerCase (sc_nodeId img)) ''field'') screenshots),
      (''cards'', filter (\<lambda>img.
         str_includes (toLowerCase (sc_nodeId img)) ''card'') screenshots),
      (''other'', filter (\<lambda>img.
         \<not> str_includes (toLowerCase (sc_nodeId img)) ''alert'' \<and>
         \<not> str_includes (sc_nodeId img) ''22123:476643'' \<and>
         \<not> str_includes (toLowerCase (sc_nodeId img)) ''form'' \<and>
         \<not> str_includes (toLowerCase (sc_nodeId img)) ''input'' \<and>
         \<not> str_includes (toLowerCase (sc_nodeId img)) ''field'' \<and>
         \<not> str_includes (toLowerCase (sc_nodeId img)) ''card'') screenshots)]"

definition updateComponentPages :: "clock \<Rightarrow> screenshot list \<Rightarrow> fsys \<Rightarrow> fsys" where
  "updateComponentPages clk screenshots s =
     (if length screenshots = 0 then s
      else foldl (\<lambda>s (componentType, images).
                    if componentType = ''other'' \<or> length images = 0 then s
                    else updateComponentPage clk componentType images s)
             s (componentGroups screenshots))"

definition generateColorsPage :: "clock \<Rightarrow> (string \<times> token) list \<Rightarrow> string" where
  "generateColorsPage clk colorTokens =
     ''---'' @ nl
     @ ''title: '' @ dq @ ''Colors'' @ dq @ nl
     @ ''description: '' @ dq @ ''Design system color tokens synced from Figma'' @ dq @ nl
     @ ''---'' @ nl
     @ nl
     @ ''# Color Tokens'' @ nl
     @ nl
     @ ''<Note>Last synced: '' @ now_locale clk @ ''</Note>'' @ nl
     @ nl
     @ join nl (map (\<lambda>(name, token).
          nl @ ''## '' @ name @ nl
          @ ''- **Value**: '' @ bt @ template_str (tok_value token) @ bt @ nl
          @ ''- **Type**: '' @ tok_type token @ nl
          @ ''<div style='' @ dq @ ''background-color: '' @ template_str (tok_value token)
          @ ''; width: 100px; height: 50px; border: 1px solid #ccc;'' @ dq @ ''></div>'' @ nl)
        (object_entries colorTokens)) @ nl"

definition generateSpacingPage :: "clock \<Rightarrow> (string \<times> token) list \<Rightarrow> string" where
  "generateSpacingPage clk spacingTokens =
     ''---'' @ nl
     @ ''title: '' @ dq @ ''Spacing'' @ dq @ nl
     @ ''description: '' @ dq @ ''Design system spacing tokens synced from Figma'' @ dq @ nl
     @ ''---'' @ nl
     @ nl
     @ ''# Spacing Tokens'' @ nl
     @ nl
     @ ''<Note>Last synced: '' @ now_locale clk @ ''</Note>'' @ nl
     @ nl
     @ join nl (map (\<lambda>(name, token).
          nl @ ''## '' @ name @ nl
          @ ''- **Value**: '' @ bt @ template_str (tok_value token) @ bt @ nl
          @ ''- **Type**: '' @ tok_type token @ nl)
        (object_entries spacingTokens)) @ nl"

definition generateTypographyPage :: "clock \<Rightarrow> (string \<times> token) list \<Rightarrow> string" where
  "generateTypographyPage clk typographyTokens =
     ''---'' @ nl
     @ ''title: '' @ dq @ ''Typography'' @ dq @ nl
     @ ''description: '' @ dq @ ''Design system typography tokens synced from Figma'' @ dq @ nl
     @ ''---'' @ nl
     @ nl
     @ ''# Typography Tokens'' @ nl
     @ nl
     @ ''<Note>Last synced: '' @ now_locale clk @ ''</Note>'' @ nl
     @ nl
     @ join nl (map (\<lambda>(name, token).
          nl @ ''## '' @ name @ nl
          @ ''- **Value**: '' @ bt @ template_str (tok_value token) @ bt @ nl
          @ ''- **Type**: '' @ tok_type token @ nl)
        (object_entries typographyTokens)) @ nl"

definition updateTokensPages :: "clock \<Rightarrow> tokens \<Rightarrow> fsys \<Rightarrow> fsys" where
  "updateTokensPages clk tokens s =
     (let s1 = writeFile ''tokens/colors.mdx'' (generateColorsPage clk (colors tokens)) s;
          s2 = writeFile ''tokens/spacing.mdx'' (generateSpacingPage clk (spacing tokens)) s1;
          s3 = writeFile ''tokens/typography.mdx''
                 (generateTypographyPage clk (typography tokens)) s2
      in s3)"

text \<open>
  \<^verbatim>\<open>updateDocumentation(tokens, screenshots)\<close>.  An introduction page that cannot
  be read throws before anything is written; the \<^verbatim>\<open>catch\<close> logs it and the
  function returns.
\<close>

definition updateDocumentation ::
  "clock \<Rightarrow> tokens option \<Rightarrow> screenshot list \<Rightarrow> fsys \<Rightarrow> fsys" where
  "updateDocumentation clk tokens screenshots s =
     (case files s ''introduction.mdx'' of
        None \<Rightarrow> s
      | Some introContent \<Rightarrow>
          (let timestamp = now_locale clk;
               s1 = writeFile ''introduction.mdx''
                      (replace_all_literal ''Last sync: [AUTO-GENERATED]''
                         (''Last sync: '' @ timestamp) introContent) s;
               s2 = (case tokens of None \<Rightarrow> s1 | Some t \<Rightarrow> updateTokensPages clk t s1);
               s3 = (if length screenshots > 0 then updateComponentPages clk screenshots s2
                     else s2)
           in s3))"

text \<open>
  How a run ends: \<^verbatim>\<open>main\<close> reaches its last line, or the process exits with a
  code.  In \<^verbatim>\<open>main\<close> only the three \<^verbatim>\<open>mkdir\<close> calls stand outside every inner
  \<^verbatim>\<open>try\<close>, and they succeed in this model of the files.
\<close>

datatype run_end = Completed | Exited nat

definition main ::
  "(tokens \<Rightarrow> string) \<Rightarrow> process_env \<Rightarrow> figma_api \<Rightarrow> clock \<Rightarrow> fsys \<Rightarrow> run_end \<times> fsys" where
  "main stringify_tokens env api clk s =
     (case fetchDesignTokens stringify_tokens env api clk s of
        (tokens, s1) \<Rightarrow>
          (case fetchScreenshots env api s1 of
             (screenshots, s2) \<Rightarrow>
               (Completed, updateDocumentation clk tokens screenshots s2)))"

text \<open>The script from its first line: the check of lines 16 to 21, then \<^verbatim>\<open>main()\<close>.\<close>

definition sync_script ::
  "(tokens \<Rightarrow> string) \<Rightarrow> process_env \<Rightarrow> figma_api \<Rightarrow> clock \<Rightarrow> fsys \<Rightarrow> run_end \<times> fsys" where
  "sync_script stringify_tokens env api clk s =
     (if \<not> truthy (FIGMA_TOKEN env) \<or> \<not> truthy (FIGMA_FILE_KEY env) then (Exited 1, s)
      else main stringify_tokens env api clk s)"

section \<open>Predicates used in the statements and proofs\<close>




text \<open>The path of the file downloaded for one node-to-URL pair.\<close>

abbreviation image_path :: "string \<Rightarrow> string \<times> string option \<Rightarrow> string" where
  "image_path repository entry \<equiv>
     ''public/images/'' @ sc_filename (screenshot_record repository (fst entry))"


section \<open>Properties of the webhook receiver\<close>

text \<open>Test vectors: SHA-256 of "abc" (FIPS 180-4) and HMAC-SHA256 of RFC 4231, test case 2.\<close>

lemma sha256_abc:
  "hex (sha256 (bytes_of ''abc'')) =
     ''ba7816bf8f01cfea414140de5dae2223b00361a396177a9cb410ff61f20015ad''"
  by code_simp

lemma hmac_sha256_rfc4231_case2:
  "hmac_sha256_hex ''what do ya want for nothing?'' ''Jefe'' =
     ''5bdcc146bf60754e6a042426089575c75a003f089d2739839dec58b964ec3843''"
  by code_simp

text \<open>
  A \<^verbatim>\<open>POST\<close> without a parsed body: under a configured secret the digest cannot be
  computed, without one the event cannot be read; both end in the \<^verbatim>\<open>catch\<close>, with
  status 500 and nothing sent.
\<close>

lemma handler_post_without_body:
  assumes "req_method req = ''POST''" and "req_body req = None"
  shows "handler stringify env fetch now req =
           (\<lparr>res_status = 500, res_json = [(''error'', JStr ''Internal server error'')]\<rparr>, [])"
  using assms
  by (simp add: handler_def handle_post_def process_event_def get_prop_def Let_def)

text \<open>
  C10. An \<^verbatim>\<open>OPTIONS\<close> request is answered 200 with message "OK" whatever its body,
  its headers and the configuration are, and nothing is sent; a request whose method is
  neither \<^verbatim>\<open>POST\<close> nor \<^verbatim>\<open>OPTIONS\<close> is answered 405 with an error object, and
  nothing is sent.
\<close>

theorem handler_options_and_wrong_method:
  "(req_method req = ''OPTIONS'' \<longrightarrow>
      handler stringify env fetch now req =
        (\<lparr>res_status = 200, res_json = [(''message'', JStr ''OK'')]\<rparr>, []))
   \<and> (req_method req \<noteq> ''POST'' \<and> req_method req \<noteq> ''OPTIONS'' \<longrightarrow>
      handler stringify env fetch now req =
        (\<lparr>res_status = 405, res_json = [(''error'', JStr ''Method not allowed'')]\<rparr>, []))"
  by (simp add: handler_def)

theorem handler_options_and_wrong_method_witness:
  "handler (\<lambda>j. ''{}'')
      \<lparr>FIGMA_WEBHOOK_SECRET = Some ''s3cret'', GITHUB_TOKEN = None, GITHUB_REPOSITORY = None,
        FIGMA_TOKEN = None, FIGMA_FILE_KEY = None, FIGMA_NODE_IDS = None\<rparr>
      (\<lambda>rq. Rejected ''offline'') ''2024-01-01T00:00:00.000Z''
      \<lparr>req_method = ''OPTIONS'', req_body = None, req_signature = None\<rparr>
     = (\<lparr>res_status = 200, res_json = [(''message'', JStr ''OK'')]\<rparr>, [])
   \<and> handler (\<lambda>j. ''{}'')
      \<lparr>FIGMA_WEBHOOK_SECRET = Some ''s3cret'', GITHUB_TOKEN = None, GITHUB_REPOSITORY = None,
        FIGMA_TOKEN = None, FIGMA_FILE_KEY = None, FIGMA_NODE_IDS = None\<rparr>
      (\<lambda>rq. Rejected ''offline'') ''2024-01-01T00:00:00.000Z''
      \<lparr>req_method = ''GET'', req_body = Some (JObj [(''event_type'', JStr ''FILE_UPDATE'')]),
       req_signature = None\<rparr>
     = (\<lparr>res_status = 405, res_json = [(''error'', JStr ''Method not allowed'')]\<rparr>, [])"
  using
    handler_options_and_wrong_method [of
      "\<lparr>req_method = ''OPTIONS'', req_body = None, req_signature = None\<rparr>"
      "\<lambda>j. ''{}''"
      "\<lparr>FIGMA_WEBHOOK_SECRET = Some ''s3cret'', GITHUB_TOKEN = None, GITHUB_REPOSITORY = None,
        FIGMA_TOKEN = None, FIGMA_FILE_KEY = None, FIGMA_NODE_IDS = None\<rparr>"
      "\<lambda>rq. Rejected ''offline''" "''2024-01-01T00:00:00.000Z''"]
    handler_options_and_wrong_method [of
      "\<lparr>req_method = ''GET'', req_body = Some (JObj [(''event_type'', JStr ''FILE_UPDATE'')]),
        req_signature = None\<rparr>"
      "\<lambda>j. ''{}''"
      "\<lparr>FIGMA_WEBHOOK_SECRET = Some ''s3cret'', GITHUB_TOKEN = None, GITHUB_REPOSITORY = None,
        FIGMA_TOKEN = None, FIGMA_FILE_KEY = None, FIGMA_NODE_IDS = None\<rparr>"
      "\<lambda>rq. Rejected ''offline''" "''2024-01-01T00:00:00.000Z''"]
  by simp



lemma length_hmac_sha256_hex: "length (hmac_sha256_hex payload secret) = 64"
  by (simp add: hmac_sha256_hex_def state_bytes_def word_bytes_def hex_def hex_byte_def
      split: prod.splits)

lemma dispatchPayload_object:
  "dispatchPayload now (Some (JObj kvs)) =
     Inr (JObj
       [(''event_type'', JStr ''figma-update''),
        (''client_payload'', JObj (defined_fields
           [(''event_type'', map_of kvs ''event_type''),
            (''file_name'', map_of kvs ''file_name''),
            (''file_key'', map_of kvs ''file_key''),
            (''timestamp'', Some (JStr now)),
            (''triggered_by'', map_of kvs ''triggered_by'')]))])"
  by (simp add: dispatchPayload_def get_prop_def)

lemma dispatch_request_method: "rq_method (dispatch_request stringify env p) = ''POST''"
  by (simp add: dispatch_request_def Let_def)



text \<open>
  C3, as amended.  Take a \<^verbatim>\<open>POST\<close> under a configured (non-empty) secret.  If it
  carries a parsed body and its \<^verbatim>\<open>x-figma-signature\<close> header is absent or differs
  from the hex HMAC-SHA256 digest of the serialized body, it is answered 401 with an error
  object.  If it carries no parsed body (\<^verbatim>\<open>req.body\<close> is \<^verbatim>\<open>undefined\<close>), there is
  no serialized body to take a digest of: \<^verbatim>\<open>hmac.update\<close> throws and the request is
  answered 500 with an error object, whatever its header is.  In both cases the answer is
  the same whatever the forwarder's configuration and the network are, and no request is
  sent.
\<close>

theorem handler_rejects_bad_signature:
  assumes "req_method req = ''POST''"
    and "FIGMA_WEBHOOK_SECRET env = Some secret" and "secret \<noteq> []"
  shows "(\<forall>b. req_body req = Some b
              \<and> req_signature req \<noteq> Some (hmac_sha256_hex (stringify b) secret) \<longrightarrow>
            handler stringify env fetch now req =
              (\<lparr>res_status = 401, res_json = [(''error'', JStr ''Invalid signature'')]\<rparr>, []))
       \<and> (req_body req = None \<longrightarrow>
            handler stringify env fetch now req =
              (\<lparr>res_status = 500, res_json = [(''error'', JStr ''Internal server error'')]\<rparr>,
               []))"
proof (intro conjI allI impI)
  fix b
  assume "req_body req = Some b
            \<and> req_signature req \<noteq> Some (hmac_sha256_hex (stringify b) secret)"
  with assms
  show "handler stringify env fetch now req =
          (\<lparr>res_status = 401, res_json = [(''error'', JStr ''Invalid signature'')]\<rparr>, [])"
    by (simp add: handler_def handle_post_def verifyFigmaWebhook_def truthy_def str_of_def)
next
  assume "req_body req = None"
  with assms(1)
  show "handler stringify env fetch now req =
          (\<lparr>res_status = 500, res_json = [(''error'', JStr ''Internal server error'')]\<rparr>, [])"
    by (rule handler_post_without_body)
qed

theorem handler_rejects_bad_signature_witness:
  "handler (\<lambda>j. ''{}'')
     \<lparr>FIGMA_WEBHOOK_SECRET = Some ''s3cret'', GITHUB_TOKEN = Some ''t0ken'',
      GITHUB_REPOSITORY = Some ''owner/repo'',
      FIGMA_TOKEN = None, FIGMA_FILE_KEY = None, FIGMA_NODE_IDS = None\<rparr>
     (\<lambda>rq. Response 204 []) ''2024-01-01T00:00:00.000Z''
     \<lparr>req_method = ''POST'', req_body = Some (JObj [(''event_type'', JStr ''FILE_UPDATE'')]),
      req_signature = None\<rparr>
   = (\<lparr>res_status = 401, res_json = [(''error'', JStr ''Invalid signature'')]\<rparr>, [])
   \<and> handler (\<lambda>j. ''{}'')
     \<lparr>FIGMA_WEBHOOK_SECRET = Some ''s3cret'', GITHUB_TOKEN = Some ''t0ken'',
      GITHUB_REPOSITORY = Some ''owner/repo'',
      FIGMA_TOKEN = None, FIGMA_FILE_KEY = None, FIGMA_NODE_IDS = None\<rparr>
     (\<lambda>rq. Response 204 []) ''2024-01-01T00:00:00.000Z''
     \<lparr>req_method = ''POST'', req_body = Some (JObj [(''event_type'', JStr ''FILE_UPDATE'')]),
      req_signature = Some ''deadbeef''\<rparr>
   = (\<lparr>res_status = 401, res_json = [(''error'', JStr ''Invalid signature'')]\<rparr>, [])
   \<and> handler (\<lambda>j. ''{}'')
     \<lparr>FIGMA_WEBHOOK_SECRET = Some ''s3cret'', GITHUB_TOKEN = Some ''t0ken'',
      GITHUB_REPOSITORY = Some ''owner/repo'',
      FIGMA_TOKEN = None, FIGMA_FILE_KEY = None, FIGMA_NODE_IDS = None\<rparr>
     (\<lambda>rq. Response 204 []) ''2024-01-01T00:00:00.000Z''
     \<lparr>req_method = ''POST'', req_body = None, req_signature = Some ''deadbeef''\<rparr>
   = (\<lparr>res_status = 500, res_json = [(''error'', JStr ''Internal server error'')]\<rparr>, [])"
proof -
  have ne: "Some ''deadbeef'' \<noteq> Some (hmac_sha256_hex ''{}'' ''s3cret'')"
  proof
    assume "Some ''deadbeef'' = Some (hmac_sha256_hex ''{}'' ''s3cret'')"
    then have "length ''deadbeef'' = length (hmac_sha256_hex ''{}'' ''s3cret'')"
      by simp
    then show False
      by (simp add: length_hmac_sha256_hex)
  qed
  show ?thesis
    using ne
      handler_rejects_bad_signature [where
        req = "\<lparr>req_method = ''POST'',
                req_body = Some (JObj [(''event_type'', JStr ''FILE_UPDATE'')]),
                req_signature = None\<rparr>"
        and secret = "''s3cret''" and stringify = "\<lambda>j. ''{}''"
        and env = "\<lparr>FIGMA_WEBHOOK_SECRET = Some ''s3cret'', GITHUB_TOKEN = Some ''t0ken'',
                GITHUB_REPOSITORY = Some ''owner/repo'',
                FIGMA_TOKEN = None, FIGMA_FILE_KEY = None, FIGMA_NODE_IDS = None\<rparr>"
        and fetch = "\<lambda>rq. Response 204 []" and now = "''2024-01-01T00:00:00.000Z''"]
      handler_rejects_bad_signature [where
        req = "\<lparr>req_method = ''POST'',
                req_body = Some (JObj [(''event_type'', JStr ''FILE_UPDATE'')]),
                req_signature = Some ''deadbeef''\<rparr>"
        and secret = "''s3cret''" and stringify = "\<lambda>j. ''{}''"
        and env = "\<lparr>FIGMA_WEBHOOK_SECRET = Some ''s3cret'', GITHUB_TOKEN = Some ''t0ken'',
                GITHUB_REPOSITORY = Some ''owner/repo'',
                FIGMA_TOKEN = None, FIGMA_FILE_KEY = None, FIGMA_NODE_IDS = None\<rparr>"
        and fetch = "\<lambda>rq. Response 204 []" and now = "''2024-01-01T00:00:00.000Z''"]
      handler_rejects_bad_signature [where
        req = "\<lparr>req_method = ''POST'', req_body = None, req_signature = Some ''deadbeef''\<rparr>"
        and secret = "''s3cret''" and stringify = "\<lambda>j. ''{}''"
        and env = "\<lparr>FIGMA_WEBHOOK_SECRET = Some ''s3cret'', GITHUB_TOKEN = Some ''t0ken'',
                GITHUB_REPOSITORY = Some ''owner/repo'',
                FIGMA_TOKEN = None, FIGMA_FILE_KEY = None, FIGMA_NODE_IDS = None\<rparr>"
        and fetch = "\<lambda>rq. Response 204 []" and now = "''2024-01-01T00:00:00.000Z''"]
    by simp
qed

text \<open>
  C3 as stated fails for a \<^verbatim>\<open>POST\<close> that carries no parsed body.  A secret is
  configured and the request has no \<^verbatim>\<open>x-figma-signature\<close> header, so the header is
  not the digest of anything; the answer is 500 "Internal server error", not 401.
\<close>

theorem handler_unsigned_post_without_body_counterexample:
  "truthy (FIGMA_WEBHOOK_SECRET
      \<lparr>FIGMA_WEBHOOK_SECRET = Some ''s3cret'', GITHUB_TOKEN = Some ''t0ken'',
       GITHUB_REPOSITORY = Some ''owner/repo'',
       FIGMA_TOKEN = None, FIGMA_FILE_KEY = None, FIGMA_NODE_IDS = None\<rparr>)
   \<and> handler (\<lambda>j. ''{}'')
     \<lparr>FIGMA_WEBHOOK_SECRET = Some ''s3cret'', GITHUB_TOKEN = Some ''t0ken'',
      GITHUB_REPOSITORY = Some ''owner/repo'',
      FIGMA_TOKEN = None, FIGMA_FILE_KEY = None, FIGMA_NODE_IDS = None\<rparr>
     (\<lambda>rq. Response 204 []) ''2024-01-01T00:00:00.000Z''
     \<lparr>req_method = ''POST'', req_body = None, req_signature = None\<rparr>
   = (\<lparr>res_status = 500, res_json = [(''error'', JStr ''Internal server error'')]\<rparr>, [])"
  by (simp add: handler_def handle_post_def truthy_def Let_def)

text \<open>
  C2.  Take a \<^verbatim>\<open>POST\<close> with a body whose signature is accepted: no secret is
  configured, or the header is the digest of the serialized body.  If the body's
  \<^verbatim>\<open>event_type\<close> is the string \<^verbatim>\<open>FILE_UPDATE\<close>, the token and the repository are
  configured, and the dispatch request \<open>rq\<close> built from the body gets a 2xx response,
  the handler answers 200 with \<^verbatim>\<open>triggered: true\<close> and exactly that one request, a
  \<^verbatim>\<open>POST\<close>, was sent.  If the \<^verbatim>\<open>event_type\<close> read from the body is anything else
  (also \<^verbatim>\<open>undefined\<close>), the handler answers 200 with the message "Event ignored",
  echoes the \<^verbatim>\<open>event_type\<close> (when there is one), has no \<^verbatim>\<open>triggered\<close> field, and
  sends nothing.
\<close>

theorem handler_file_update_and_other_events:
  assumes post: "req_method req = ''POST''" and body: "req_body req = Some b"
    and sig: "\<not> truthy (FIGMA_WEBHOOK_SECRET env) \<or>
          req_signature req =
            Some (hmac_sha256_hex (stringify b) (str_of (FIGMA_WEBHOOK_SECRET env)))"
  shows "(get_prop (Some b) ''event_type'' = Inr (Some (JStr ''FILE_UPDATE'')) \<and>
          truthy (GITHUB_TOKEN env) \<and> truthy (GITHUB_REPOSITORY env) \<and>
          dispatchPayload now (Some b) = Inr p \<and> rq = dispatch_request stringify env p \<and>
          fetch rq = Response st reply \<and> response_ok st
          \<longrightarrow> handler stringify env fetch now req =
                (\<lparr>res_status = 200,
                  res_json = [(''message'', JStr ''Webhook processed successfully''),
                              (''triggered'', JBool True)]\<rparr>,
                 [rq])
              \<and> rq_method rq = ''POST'')
       \<and> (get_prop (Some b) ''event_type'' = Inr et \<and> et \<noteq> Some (JStr ''FILE_UPDATE'')
          \<longrightarrow> handler stringify env fetch now req =
                (\<lparr>res_status = 200,
                  res_json = (''message'', JStr ''Event ignored'') #
                    (case et of None \<Rightarrow> [] | Some v \<Rightarrow> [(''event_type'', v)])\<rparr>,
                 []))"
proof -
  have hp: "handle_post stringify env fetch now req =
              process_event stringify env fetch now (Some b)"
    using body sig by (auto simp: handle_post_def verifyFigmaWebhook_def Let_def)
  show ?thesis
    using post
    by (auto simp: handler_def hp process_event_def triggerGitHubAction_def Let_def
        defined_fields_def dispatch_request_method split: option.splits)
qed

theorem handler_file_update_and_other_events_witness:
  "handler (\<lambda>j. ''{}'')
     \<lparr>FIGMA_WEBHOOK_SECRET = Some ''s3cret'', GITHUB_TOKEN = Some ''t0ken'',
      GITHUB_REPOSITORY = Some ''owner/repo'',
      FIGMA_TOKEN = None, FIGMA_FILE_KEY = None, FIGMA_NODE_IDS = None\<rparr>
     (\<lambda>rq. Response 204 []) ''2024-01-01T00:00:00.000Z''
     \<lparr>req_method = ''POST'', req_body = Some (JObj [(''event_type'', JStr ''FILE_UPDATE'')]),
      req_signature = Some (hmac_sha256_hex ''{}'' ''s3cret'')\<rparr>
   = (\<lparr>res_status = 200,
       res_json = [(''message'', JStr ''Webhook processed successfully''),
                   (''triggered'', JBool True)]\<rparr>,
      [\<lparr>rq_url = ''https://api.github.com/repos/owner/repo/dispatches'',
        rq_method = ''POST'',
        rq_headers = [(''Authorization'', ''token t0ken''),
                      (''Accept'', ''application/vnd.github.v3+json''),
                      (''Content-Type'', ''application/json'')],
        rq_body = ''{}''\<rparr>])
   \<and> handler (\<lambda>j. ''{}'')
     \<lparr>FIGMA_WEBHOOK_SECRET = None, GITHUB_TOKEN = Some ''t0ken'',
      GITHUB_REPOSITORY = Some ''owner/repo'',
      FIGMA_TOKEN = None, FIGMA_FILE_KEY = None, FIGMA_NODE_IDS = None\<rparr>
     (\<lambda>rq. Response 204 []) ''2024-01-01T00:00:00.000Z''
     \<lparr>req_method = ''POST'', req_body = Some (JObj [(''event_type'', JStr ''FILE_COMMENT'')]),
      req_signature = None\<rparr>
   = (\<lparr>res_status = 200,
       res_json = [(''message'', JStr ''Event ignored''),
                   (''event_type'', JStr ''FILE_COMMENT'')]\<rparr>,
      [])"
  using
    handler_file_update_and_other_events [where
      req = "\<lparr>req_method = ''POST'',
              req_body = Some (JObj [(''event_type'', JStr ''FILE_UPDATE'')]),
              req_signature = Some (hmac_sha256_hex ''{}'' ''s3cret'')\<rparr>"
      and b = "JObj [(''event_type'', JStr ''FILE_UPDATE'')]" and stringify = "\<lambda>j. ''{}''"
      and env = "\<lparr>FIGMA_WEBHOOK_SECRET = Some ''s3cret'', GITHUB_TOKEN = Some ''t0ken'',
              GITHUB_REPOSITORY = Some ''owner/repo'',
              FIGMA_TOKEN = None, FIGMA_FILE_KEY = None, FIGMA_NODE_IDS = None\<rparr>"
      and fetch = "\<lambda>rq. Response 204 []" and now = "''2024-01-01T00:00:00.000Z''"
      and st = "204" and reply = "[]" and et = "None"
      and p = "JObj [(''event_type'', JStr ''figma-update''),
                     (''client_payload'', JObj [(''event_type'', JStr ''FILE_UPDATE''),
                        (''timestamp'', JStr ''2024-01-01T00:00:00.000Z'')])]"
      and rq = "\<lparr>rq_url = ''https://api.github.com/repos/owner/repo/dispatches'',
              rq_method = ''POST'',
              rq_headers = [(''Authorization'', ''token t0ken''),
                            (''Accept'', ''application/vnd.github.v3+json''),
                            (''Content-Type'', ''application/json'')],
              rq_body = ''{}''\<rparr>"]
    handler_file_update_and_other_events [where
      req = "\<lparr>req_method = ''POST'',
              req_body = Some (JObj [(''event_type'', JStr ''FILE_COMMENT'')]),
              req_signature = None\<rparr>"
      and b = "JObj [(''event_type'', JStr ''FILE_COMMENT'')]" and stringify = "\<lambda>j. ''{}''"
      and env = "\<lparr>FIGMA_WEBHOOK_SECRET = None, GITHUB_TOKEN = Some ''t0ken'',
              GITHUB_REPOSITORY = Some ''owner/repo'',
              FIGMA_TOKEN = None, FIGMA_FILE_KEY = None, FIGMA_NODE_IDS = None\<rparr>"
      and fetch = "\<lambda>rq. Response 204 []" and now = "''2024-01-01T00:00:00.000Z''"
      and et = "Some (JStr ''FILE_COMMENT'')"]
  by (simp add: truthy_def str_of_def get_prop_def dispatchPayload_def defined_fields_def
      dispatch_request_def elem_str_def response_ok_def)

text \<open>
  C7, as amended.  For an event object, \<^verbatim>\<open>triggerGitHubAction\<close> raises exactly when
  the token or the repository is missing (then before any request: nothing is sent),
  or the one dispatch \<^verbatim>\<open>POST\<close> gets no response at all (the rejection of
  \<^verbatim>\<open>fetch\<close> propagates), or it gets a response whose status is not 2xx (the error
  then carries the status and the response body).  Whenever the configuration is there,
  exactly one request, a \<^verbatim>\<open>POST\<close>, is sent, whatever its outcome: nothing is retried.
\<close>

theorem triggerGitHubAction_outcomes:
  assumes payload: "dispatchPayload now (Some (JObj kvs)) = Inr p"
    and rq: "rq = dispatch_request stringify env p"
    and run: "triggerGitHubAction stringify env fetch now (Some (JObj kvs)) = (res, sent)"
  shows "(isl res \<longleftrightarrow>
            \<not> truthy (GITHUB_TOKEN env) \<or> \<not> truthy (GITHUB_REPOSITORY env)
            \<or> (\<exists>m. fetch rq = Rejected m)
            \<or> (\<exists>st reply. fetch rq = Response st reply \<and> \<not> response_ok st))
       \<and> (\<not> truthy (GITHUB_TOKEN env) \<or> \<not> truthy (GITHUB_REPOSITORY env) \<longrightarrow>
            res = Inl (Error ''Missing GitHub configuration'') \<and> sent = [])
       \<and> (truthy (GITHUB_TOKEN env) \<and> truthy (GITHUB_REPOSITORY env) \<longrightarrow>
            sent = [rq] \<and> rq_method rq = ''POST'')
       \<and> (truthy (GITHUB_TOKEN env) \<and> truthy (GITHUB_REPOSITORY env) \<longrightarrow>
            (\<forall>st reply. fetch rq = Response st reply \<and> \<not> response_ok st \<longrightarrow>
               res = Inl (Error (''GitHub API error: '' @ string_of_nat st @ '' '' @ reply))))
       \<and> (truthy (GITHUB_TOKEN env) \<and> truthy (GITHUB_REPOSITORY env) \<longrightarrow>
            (\<forall>m. fetch rq = Rejected m \<longrightarrow> res = Inl (FetchError m)))"
  using assms
  by (auto simp: triggerGitHubAction_def Let_def dispatch_request_method
      split: fetch_outcome.splits if_splits)

theorem triggerGitHubAction_outcomes_witness:
  "triggerGitHubAction (\<lambda>j. ''{}'')
     \<lparr>FIGMA_WEBHOOK_SECRET = None, GITHUB_TOKEN = Some ''t0ken'',
      GITHUB_REPOSITORY = Some ''owner/repo'',
      FIGMA_TOKEN = None, FIGMA_FILE_KEY = None, FIGMA_NODE_IDS = None\<rparr>
     (\<lambda>rq. Response 404 ''Not Found'') ''2024-01-01T00:00:00.000Z''
     (Some (JObj [(''event_type'', JStr ''FILE_UPDATE'')]))
   = (Inl (Error ''GitHub API error: 404 Not Found''),
      [\<lparr>rq_url = ''https://api.github.com/repos/owner/repo/dispatches'',
        rq_method = ''POST'',
        rq_headers = [(''Authorization'', ''token t0ken''),
                      (''Accept'', ''application/vnd.github.v3+json''),
                      (''Content-Type'', ''application/json'')],
        rq_body = ''{}''\<rparr>])"
proof -
  let ?env = "\<lparr>FIGMA_WEBHOOK_SECRET = None, GITHUB_TOKEN = Some ''t0ken'',
      GITHUB_REPOSITORY = Some ''owner/repo'',
      FIGMA_TOKEN = None, FIGMA_FILE_KEY = None, FIGMA_NODE_IDS = None\<rparr>"
  let ?run = "triggerGitHubAction (\<lambda>j. ''{}'') ?env (\<lambda>rq. Response 404 ''Not Found'')
      ''2024-01-01T00:00:00.000Z'' (Some (JObj [(''event_type'', JStr ''FILE_UPDATE'')]))"
  have digits: "string_of_nat 404 = ''404''"
    by (simp add: string_of_nat.simps dec_digit_def)
  show ?thesis
    using triggerGitHubAction_outcomes [where
        kvs = "[(''event_type'', JStr ''FILE_UPDATE'')]" and now = "''2024-01-01T00:00:00.000Z''"
        and stringify = "\<lambda>j. ''{}''" and env = ?env
        and fetch = "\<lambda>rq. Response 404 ''Not Found''"
        and p = "JObj [(''event_type'', JStr ''figma-update''),
                       (''client_payload'', JObj [(''event_type'', JStr ''FILE_UPDATE''),
                          (''timestamp'', JStr ''2024-01-01T00:00:00.000Z'')])]"
        and rq = "\<lparr>rq_url = ''https://api.github.com/repos/owner/repo/dispatches'',
                rq_method = ''POST'',
                rq_headers = [(''Authorization'', ''token t0ken''),
                              (''Accept'', ''application/vnd.github.v3+json''),
                              (''Content-Type'', ''application/json'')],
                rq_body = ''{}''\<rparr>"
        and res = "fst ?run" and sent = "snd ?run"]
    by (simp add: dispatchPayload_object defined_fields_def dispatch_request_def
        elem_str_def truthy_def str_of_def response_ok_def digits prod_eq_iff)
qed

text \<open>
  C7 as stated fails.  With the token and the repository configured, a \<^verbatim>\<open>fetch\<close>
  that rejects (the network is down: there is no response, so no status either) makes
  \<^verbatim>\<open>triggerGitHubAction\<close> raise, after one request.
\<close>

theorem triggerGitHubAction_raises_counterexample:
  "triggerGitHubAction (\<lambda>j. ''{}'')
     \<lparr>FIGMA_WEBHOOK_SECRET = None, GITHUB_TOKEN = Some ''t0ken'',
      GITHUB_REPOSITORY = Some ''owner/repo'',
      FIGMA_TOKEN = None, FIGMA_FILE_KEY = None, FIGMA_NODE_IDS = None\<rparr>
     (\<lambda>rq. Rejected ''ECONNREFUSED'') ''2024-01-01T00:00:00.000Z''
     (Some (JObj [(''event_type'', JStr ''FILE_UPDATE'')]))
   = (Inl (FetchError ''ECONNREFUSED''),
      [\<lparr>rq_url = ''https://api.github.com/repos/owner/repo/dispatches'',
        rq_method = ''POST'',
        rq_headers = [(''Authorization'', ''token t0ken''),
                      (''Accept'', ''application/vnd.github.v3+json''),
                      (''Content-Type'', ''application/json'')],
        rq_body = ''{}''\<rparr>])
   \<and> truthy (Some ''t0ken'') \<and> truthy (Some ''owner/repo'')"
  by (simp add: triggerGitHubAction_def dispatchPayload_object defined_fields_def
      dispatch_request_def elem_str_def truthy_def str_of_def)

section \<open>Properties of the sync script\<close>





















lemma str_includes_self: "str_includes s s"
proof -
  have "starts_with s s"
    by (induction s) auto
  then show ?thesis
    by (cases s) auto
qed

text \<open>
  C8, as amended.  The four groups are filters of the list: "alerts" holds the records
  whose lower-cased node identifier contains "alert" or whose node identifier contains
  "22123:476643", "forms" those with "form", "input" or "field", "cards" those with
  "card", and "other" exactly the records in none of the three.  Together they cover the
  list, and "other" is disjoint from the three named groups; the named groups may
  overlap.  The hard-coded identifier is in "alerts".
\<close>

theorem componentGroups_cover:
  "(\<exists>A F C R.
     componentGroups screenshots = [(''alerts'', A), (''forms'', F), (''cards'', C), (''other'', R)]
     \<and> set A \<union> set F \<union> set C \<union> set R = set screenshots
     \<and> set R \<inter> (set A \<union> set F \<union> set C) = {}
     \<and> (\<forall>img. img \<in> set A \<longleftrightarrow> img \<in> set screenshots \<and>
           (str_includes (toLowerCase (sc_nodeId img)) ''alert''
            \<or> str_includes (sc_nodeId img) ''22123:476643''))
     \<and> (\<forall>img. img \<in> set F \<longleftrightarrow> img \<in> set screenshots \<and>
           (str_includes (toLowerCase (sc_nodeId img)) ''form''
            \<or> str_includes (toLowerCase (sc_nodeId img)) ''input''
            \<or> str_includes (toLowerCase (sc_nodeId img)) ''field''))
     \<and> (\<forall>img. img \<in> set C \<longleftrightarrow> img \<in> set screenshots \<and>
           str_includes (toLowerCase (sc_nodeId img)) ''card'')
     \<and> (\<forall>img. img \<in> set R \<longleftrightarrow> img \<in> set screenshots \<and>
           img \<notin> set A \<and> img \<notin> set F \<and> img \<notin> set C))
   \<and> str_includes ''22123:476643'' ''22123:476643''"
proof
  show "\<exists>A F C R.
     componentGroups screenshots = [(''alerts'', A), (''forms'', F), (''cards'', C), (''other'', R)]
     \<and> set A \<union> set F \<union> set C \<union> set R = set screenshots
     \<and> set R \<inter> (set A \<union> set F \<union> set C) = {}
     \<and> (\<forall>img. img \<in> set A \<longleftrightarrow> img \<in> set screenshots \<and>
           (str_includes (toLowerCase (sc_nodeId img)) ''alert''
            \<or> str_includes (sc_nodeId img) ''22123:476643''))
     \<and> (\<forall>img. img \<in> set F \<longleftrightarrow> img \<in> set screenshots \<and>
           (str_includes (toLowerCase (sc_nodeId img)) ''form''
            \<or> str_includes (toLowerCase (sc_nodeId img)) ''input''
            \<or> str_includes (toLowerCase (sc_nodeId img)) ''field''))
     \<and> (\<forall>img. img \<in> set C \<longleftrightarrow> img \<in> set screenshots \<and>
           str_includes (toLowerCase (sc_nodeId img)) ''card'')
     \<and> (\<forall>img. img \<in> set R \<longleftrightarrow> img \<in> set screenshots \<and>
           img \<notin> set A \<and> img \<notin> set F \<and> img \<notin> set C)"
    unfolding componentGroups_def by (intro exI conjI refl) auto
  show "str_includes ''22123:476643'' ''22123:476643''"
    by (rule str_includes_self)
qed

text \<open>
  C8 as stated fails: the groups are not pairwise disjoint.  A record whose node
  identifier is "alert-card" is in "alerts" and in "cards", and with both pages present
  \<^verbatim>\<open>updateComponentPages\<close> writes both.
\<close>

theorem componentGroups_overlap_counterexample:
  "componentGroups
     [\<lparr>sc_nodeId = ''alert-card'', sc_safeNodeId = ''alert-card'',
       sc_filename = ''figma-alert-card.png'', sc_path = ''u''\<rparr>]
   = [(''alerts'', [\<lparr>sc_nodeId = ''alert-card'', sc_safeNodeId = ''alert-card'',
                     sc_filename = ''figma-alert-card.png'', sc_path = ''u''\<rparr>]),
      (''forms'', []),
      (''cards'', [\<lparr>sc_nodeId = ''alert-card'', sc_safeNodeId = ''alert-card'',
                    sc_filename = ''figma-alert-card.png'', sc_path = ''u''\<rparr>]),
      (''other'', [])]
   \<and> writes (updateComponentPages \<lparr>now_iso = ''i'', now_locale = ''t''\<rparr>
       [\<lparr>sc_nodeId = ''alert-card'', sc_safeNodeId = ''alert-card'',
         sc_filename = ''figma-alert-card.png'', sc_path = ''u''\<rparr>]
       \<lparr>files = [''components/alerts.mdx'' \<mapsto> ''## Component Screenshots'',
                 ''components/cards.mdx'' \<mapsto> ''## Component Screenshots''],
        writes = []\<rparr>)
     = [''components/alerts.mdx'', ''components/cards.mdx'']"
  by (simp add: updateComponentPages_def componentGroups_def toLowerCase_def lower_char_def
      updateComponentPage_def writeFile_def Let_def)

lemma download_images_effect:
  "download_images repo dl entries acc s = (r, s') \<Longrightarrow>
     (\<exists>k. writes s' = writes s @ map (image_path repo) (take k (filter has_url entries)))
     \<and> (\<forall>shots. r = Inr shots \<longrightarrow>
           shots = acc @ map (\<lambda>e. screenshot_record repo (fst e)) (filter has_url entries)
           \<and> writes s' = writes s @ map (image_path repo) (filter has_url entries))
     \<and> ((\<forall>e\<in>set entries. has_url e \<longrightarrow> dl (str_of (snd e)) \<noteq> None) \<longrightarrow> \<not> isl r)"
proof (induction repo dl entries acc s arbitrary: r s' rule: download_images.induct)
  case (1 repository fetch_file downloadedImages s)
  then show ?case by auto
next
  case (2 repository fetch_file nodeId imageUrl rest downloadedImages s)
  show ?case
  proof (cases "truthy imageUrl")
    case False
    with 2 show ?thesis by (simp add: has_url_def)
  next
    case True
    show ?thesis
    proof (cases "fetch_file (str_of imageUrl)")
      case None
      with True 2(3) have "r = Inl (FetchError (str_of imageUrl))" "s' = s" by auto
      then show ?thesis using True None by (auto simp: has_url_def intro: exI [of _ 0])
    next
      case (Some buffer)
      let ?s1 = "writeFile (''public/images/'' @ sc_filename (screenshot_record repository nodeId)) buffer s"
      have run: "download_images repository fetch_file rest
                   (downloadedImages @ [screenshot_record repository nodeId]) ?s1 = (r, s')"
        using 2(3) True Some by simp
      note IH = 2(1) [OF True Some run]
      from IH obtain k where k: "writes s' = writes ?s1 @ map (image_path repository) (take k (filter has_url rest))"
        by blast
      have w1: "writes ?s1 = writes s @ [image_path repository (nodeId, imageUrl)]"
        by (simp add: writeFile_def)
      have hu: "has_url (nodeId, imageUrl)"
        using True by (simp add: has_url_def)
      have "writes s' = writes s @ map (image_path repository)
              (take (Suc k) (filter has_url ((nodeId, imageUrl) # rest)))"
        using k w1 hu by simp
      then have a: "\<exists>k. writes s' = writes s @ map (image_path repository)
              (take k (filter has_url ((nodeId, imageUrl) # rest)))"
        by blast
      have b: "\<forall>shots. r = Inr shots \<longrightarrow>
           shots = downloadedImages @ map (\<lambda>e. screenshot_record repository (fst e))
                     (filter has_url ((nodeId, imageUrl) # rest))
           \<and> writes s' = writes s @ map (image_path repository)
                     (filter has_url ((nodeId, imageUrl) # rest))"
        using IH w1 hu by simp
      have c: "(\<forall>e\<in>set ((nodeId, imageUrl) # rest). has_url e \<longrightarrow> fetch_file (str_of (snd e)) \<noteq> None)
                 \<longrightarrow> \<not> isl r"
      proof -
        from IH have "(\<forall>e\<in>set rest. has_url e \<longrightarrow> fetch_file (str_of (snd e)) \<noteq> None)
                        \<longrightarrow> \<not> isl r"
          by (elim conjE)
        then show ?thesis by simp
      qed
      from a b c show ?thesis by blast
    qed
  qed
qed


lemma replace_colons_no_colon: "CHR '':'' \<notin> set (replace_colons s)"
  by (auto simp: replace_colons_def)

text \<open>
  C9.  Let the image endpoint answer with its node-to-URL pairs.  The files written by
  \<^verbatim>\<open>fetchScreenshots\<close> are those of the first pairs that have a URL, in order, and of
  nothing else; the records returned are those of the pairs that have a URL, or none when
  a download failed; when every download succeeds, each pair with a URL has its record
  and its file.  A pair whose URL is \<^verbatim>\<open>null\<close> has no URL, so it yields no record and
  no file.  The filename of a node is "figma-", the node identifier with every colon
  replaced by a hyphen, and ".png"; it has no colon left; for "12:34" it is
  "figma-12-34.png".
\<close>

theorem fetchScreenshots_records_and_files:
  assumes ids: "configured_node_ids env \<noteq> []"
    and resp: "get_images api
        (FIGMA_API @ ''/images/'' @ str_of (FIGMA_FILE_KEY env) @ ''?ids=''
         @ join '','' (configured_node_ids env) @ ''&format=png&scale=2'')
        = Http st stText (Some images)"
    and ok: "response_ok st"
    and run: "fetchScreenshots env api s = (shots, s')"
  shows
    "(\<exists>k. writes s' = writes s
            @ map (image_path (sync_repository env)) (take k (filter has_url images)))
   \<and> (shots = [] \<or>
        shots = map (\<lambda>e. screenshot_record (sync_repository env) (fst e))
                  (filter has_url images))
   \<and> ((\<forall>e\<in>set images. has_url e \<longrightarrow> get_file api (str_of (snd e)) \<noteq> None) \<longrightarrow>
        shots = map (\<lambda>e. screenshot_record (sync_repository env) (fst e))
                  (filter has_url images)
        \<and> writes s' = writes s
            @ map (image_path (sync_repository env)) (filter has_url images))
   \<and> \<not> has_url (nodeId, None)
   \<and> sc_filename (screenshot_record repository nodeId)
        = ''figma-'' @ map (\<lambda>c. if c = CHR '':'' then CHR ''-'' else c) nodeId @ ''.png''
   \<and> CHR '':'' \<notin> set (sc_filename (screenshot_record repository nodeId))
   \<and> sc_filename (screenshot_record repository ''12:34'') = ''figma-12-34.png''"
proof -
  obtain r s1 where loop:
    "download_images (sync_repository env) (get_file api) images [] s = (r, s1)"
    by (cases "download_images (sync_repository env) (get_file api) images [] s") auto
  note eff = download_images_effect [OF loop]
  have out: "shots = (case r of Inl e \<Rightarrow> [] | Inr d \<Rightarrow> d)" "s' = s1"
    using run ids resp ok loop
    by (auto simp: fetchScreenshots_def Let_def split: sum.splits)
  have a: "\<exists>k. writes s' = writes s
            @ map (image_path (sync_repository env)) (take k (filter has_url images))"
    using eff out by blast
  have b: "shots = [] \<or>
        shots = map (\<lambda>e. screenshot_record (sync_repository env) (fst e))
                  (filter has_url images)"
    using eff out by (cases r) auto
  have c: "(\<forall>e\<in>set images. has_url e \<longrightarrow> get_file api (str_of (snd e)) \<noteq> None) \<longrightarrow>
        shots = map (\<lambda>e. screenshot_record (sync_repository env) (fst e))
                  (filter has_url images)
        \<and> writes s' = writes s
            @ map (image_path (sync_repository env)) (filter has_url images)"
    using eff out by (cases r) auto
  have d: "\<not> has_url (nodeId, None)"
    by (simp add: has_url_def truthy_def)
  have e: "sc_filename (screenshot_record repository nodeId)
        = ''figma-'' @ map (\<lambda>c. if c = CHR '':'' then CHR ''-'' else c) nodeId @ ''.png''"
    by (simp add: screenshot_record_def replace_colons_def Let_def)
  have f: "CHR '':'' \<notin> set (sc_filename (screenshot_record repository nodeId))"
    using replace_colons_no_colon [of nodeId]
    by (simp add: screenshot_record_def Let_def)
  have g: "sc_filename (screenshot_record repository ''12:34'') = ''figma-12-34.png''"
    by (simp add: screenshot_record_def replace_colons_def Let_def)
  show ?thesis
    by (rule conjI [OF a conjI [OF b conjI [OF c conjI [OF d conjI [OF e conjI [OF f g]]]]]])
qed

theorem fetchScreenshots_records_and_files_witness:
  "fetchScreenshots
     \<lparr>FIGMA_WEBHOOK_SECRET = None, GITHUB_TOKEN = None, GITHUB_REPOSITORY = None,
      FIGMA_TOKEN = Some ''figd'', FIGMA_FILE_KEY = Some ''KEY'',
      FIGMA_NODE_IDS = Some ''12:34,56:78''\<rparr>
     \<lparr>get_variables = (\<lambda>u. NetFail ''offline''),
      get_images = (\<lambda>u. Http 200 ''OK''
                      (Some [(''12:34'', Some ''https://img/1''), (''56:78'', None)])),
      get_file = (\<lambda>u. Some ''PNG'')\<rparr>
     \<lparr>files = (\<lambda>p. None), writes = []\<rparr>
   = ([\<lparr>sc_nodeId = ''12:34'', sc_safeNodeId = ''12-34'', sc_filename = ''figma-12-34.png'',
        sc_path = ''https://raw.githubusercontent.com/hellojulian/mintlify/main/public/images/figma-12-34.png''\<rparr>],
      \<lparr>files = (\<lambda>p. None)(''public/images/figma-12-34.png'' \<mapsto> ''PNG''),
       writes = [''public/images/figma-12-34.png'']\<rparr>)"
proof -
  let ?env = "\<lparr>FIGMA_WEBHOOK_SECRET = None, GITHUB_TOKEN = None, GITHUB_REPOSITORY = None,
      FIGMA_TOKEN = Some ''figd'', FIGMA_FILE_KEY = Some ''KEY'',
      FIGMA_NODE_IDS = Some ''12:34,56:78''\<rparr>"
  let ?api = "\<lparr>get_variables = (\<lambda>u. NetFail ''offline''),
      get_images = (\<lambda>u. Http 200 ''OK''
                      (Some [(''12:34'', Some ''https://img/1''), (''56:78'', None)])),
      get_file = (\<lambda>u. Some ''PNG'')\<rparr>"
  let ?s = "\<lparr>files = (\<lambda>p. None), writes = []\<rparr>"
  let ?run = "fetchScreenshots ?env ?api ?s"
  have files: "files (snd ?run) = (\<lambda>p. None)(''public/images/figma-12-34.png'' \<mapsto> ''PNG'')"
    by (simp add: fetchScreenshots_def configured_node_ids_def response_ok_def truthy_def
        str_of_def sync_repository_def screenshot_record_def replace_colons_def writeFile_def
        Let_def)
  have "fst ?run = [screenshot_record (sync_repository ?env) ''12:34'']
        \<and> writes (snd ?run) = [''public/images/figma-12-34.png'']"
    using fetchScreenshots_records_and_files [where env = ?env and api = ?api and s = ?s
        and st = "200" and stText = "''OK''"
        and images = "[(''12:34'', Some ''https://img/1''), (''56:78'', None)]"
        and shots = "fst ?run" and s' = "snd ?run"]
    by (simp add: configured_node_ids_def response_ok_def has_url_def truthy_def
        screenshot_record_def replace_colons_def Let_def)
  with files show ?thesis
    by (cases ?run)
       (simp add: sync_repository_def screenshot_record_def replace_colons_def truthy_def
          Let_def)
qed













text \<open>
  C5 fails on the code.  Start from a component page that has the heading, and run the
  updater twice with the same token document, the same screenshot and the same clock.
  After the first run the page is the rendered section.  The section's own sub-heading
  starts with \<^verbatim>\<open>##\<close>, so in the second run the section found ends before it:
  the page after the second run is the rendered section followed by the first run's
  screenshot block once more.
\<close>

theorem updateDocumentation_second_run_duplicates:
  "files (updateDocumentation \<lparr>now_iso = ''i'', now_locale = ''t''\<rparr>
            (Some \<lparr>colors = [], typography = [], spacing = [], lastSync = ''i''\<rparr>)
            [\<lparr>sc_nodeId = ''alert:1'', sc_safeNodeId = ''alert-1'',
              sc_filename = ''figma-alert-1.png'', sc_path = ''u''\<rparr>]
            \<lparr>files = [''introduction.mdx'' \<mapsto> ''Last sync: [AUTO-GENERATED]'',
                      ''components/alerts.mdx'' \<mapsto> ''## Component Screenshots''],
             writes = []\<rparr>) ''components/alerts.mdx''
     = Some (screenshots_block ''t''
              (render_screenshot \<lparr>sc_nodeId = ''alert:1'', sc_safeNodeId = ''alert-1'',
                 sc_filename = ''figma-alert-1.png'', sc_path = ''u''\<rparr>))
   \<and> files (updateDocumentation \<lparr>now_iso = ''i'', now_locale = ''t''\<rparr>
            (Some \<lparr>colors = [], typography = [], spacing = [], lastSync = ''i''\<rparr>)
            [\<lparr>sc_nodeId = ''alert:1'', sc_safeNodeId = ''alert-1'',
              sc_filename = ''figma-alert-1.png'', sc_path = ''u''\<rparr>]
            (updateDocumentation \<lparr>now_iso = ''i'', now_locale = ''t''\<rparr>
              (Some \<lparr>colors = [], typography = [], spacing = [], lastSync = ''i''\<rparr>)
              [\<lparr>sc_nodeId = ''alert:1'', sc_safeNodeId = ''alert-1'',
                sc_filename = ''figma-alert-1.png'', sc_path = ''u''\<rparr>]
              \<lparr>files = [''introduction.mdx'' \<mapsto> ''Last sync: [AUTO-GENERATED]'',
                        ''components/alerts.mdx'' \<mapsto> ''## Component Screenshots''],
               writes = []\<rparr>)) ''components/alerts.mdx''
     = Some (screenshots_block ''t''
              (render_screenshot \<lparr>sc_nodeId = ''alert:1'', sc_safeNodeId = ''alert-1'',
                 sc_filename = ''figma-alert-1.png'', sc_path = ''u''\<rparr>)
             @ tl (render_screenshot \<lparr>sc_nodeId = ''alert:1'', sc_safeNodeId = ''alert-1'',
                 sc_filename = ''figma-alert-1.png'', sc_path = ''u''\<rparr>)
             @ nl @ nl)"
  by (simp add: updateDocumentation_def updateTokensPages_def updateComponentPages_def
      componentGroups_def updateComponentPage_def toLowerCase_def lower_char_def writeFile_def
      replace_all_literal_def replace_screenshots_section_def screenshots_block_def
      render_screenshot_def replace_colons_def nl_def dq_def is_space_def Let_def)

end
